theory Spec2Isabelle
  imports Main "HOL-Library.AList"
begin

section \<open>Data model (models/schemas.py)\<close>

text \<open>
  The three string enums. Each member carries the token that is stored and sent
  (\<open>BouquetSize.SMALL = "S"\<close>, ...). Both status enums have a member called
  \<open>COMPLETED\<close>, so the members of the status enums carry their class name.
\<close>

datatype BouquetSize = SMALL | MEDIUM | LARGE

datatype PaymentStatus = PaymentStatus_INCOMPLETE | PaymentStatus_COMPLETED

datatype OrderStatus = OrderStatus_NOT_STARTED | OrderStatus_IN_PROGRESS | OrderStatus_COMPLETED

fun BouquetSize_value :: "BouquetSize \<Rightarrow> string" where
  "BouquetSize_value SMALL = ''S''"
| "BouquetSize_value MEDIUM = ''M''"
| "BouquetSize_value LARGE = ''L''"

fun PaymentStatus_value :: "PaymentStatus \<Rightarrow> string" where
  "PaymentStatus_value PaymentStatus_INCOMPLETE = ''Incomplete''"
| "PaymentStatus_value PaymentStatus_COMPLETED = ''Completed''"

fun OrderStatus_value :: "OrderStatus \<Rightarrow> string" where
  "OrderStatus_value OrderStatus_NOT_STARTED = ''Not Started''"
| "OrderStatus_value OrderStatus_IN_PROGRESS = ''In Progress''"
| "OrderStatus_value OrderStatus_COMPLETED = ''Completed''"

text \<open>
  Looking an enum member up by its token, as \<open>PaymentStatus("Completed")\<close> does;
  Python raises \<open>ValueError\<close> for a token of no member, here \<open>None\<close>.
\<close>

definition BouquetSize_of :: "string \<Rightarrow> BouquetSize option" where
  "BouquetSize_of s =
     (if s = ''S'' then Some SMALL
      else if s = ''M'' then Some MEDIUM
      else if s = ''L'' then Some LARGE
      else None)"

definition PaymentStatus_of :: "string \<Rightarrow> PaymentStatus option" where
  "PaymentStatus_of s =
     (if s = ''Incomplete'' then Some PaymentStatus_INCOMPLETE
      else if s = ''Completed'' then Some PaymentStatus_COMPLETED
      else None)"

definition OrderStatus_of :: "string \<Rightarrow> OrderStatus option" where
  "OrderStatus_of s =
     (if s = ''Not Started'' then Some OrderStatus_NOT_STARTED
      else if s = ''In Progress'' then Some OrderStatus_IN_PROGRESS
      else if s = ''Completed'' then Some OrderStatus_COMPLETED
      else None)"

text \<open>
  A \<open>uuid.UUID\<close> object is represented by its canonical text, which is what
  \<open>str(u)\<close> returns. Parsing a text into a UUID (\<open>UUID(text)\<close>, which raises
  \<open>ValueError\<close> on a malformed text) belongs to Python's library; the functions
  that call it take it as the parameter \<open>parse\<close>, with \<open>None\<close> for the raise.
  A \<open>datetime\<close> is a number of microseconds.
\<close>

datatype UUID = UUID (str_UUID: string)

type_synonym datetime = nat

text \<open>
  The exceptions that can cross a function boundary. \<open>HTTPException\<close> carries the
  status code and the detail text. pydantic's \<open>ValidationError\<close> is a subclass of
  \<open>ValueError\<close>, so a handler \<open>except ValueError\<close> catches both.
\<close>

datatype exn =
    HTTPException nat string
  | ValidationError
  | ValueError
  | TypeError
  | RuntimeError string
  | NotFound
  | SignatureVerificationError
  | StripeError string

fun isinstance_ValueError :: "exn \<Rightarrow> bool" where
  "isinstance_ValueError ValueError = True"
| "isinstance_ValueError ValidationError = True"
| "isinstance_ValueError _ = False"

text \<open>
  The models. \<open>Item\<close> extends \<open>ItemCreate\<close>. Field names are global in a
  theory, so the fields of \<open>Order\<close> keep the source's names and the fields of the
  other classes carry a prefix; \<open>size\<close> is \<open>bouquet_size\<close>.
\<close>

record ItemCreate =
  main_colours :: "string list"
  bouquet_size :: BouquetSize
  comments :: "string option"

record Item = ItemCreate +
  item_id :: UUID
  item_created_at :: datetime

record OrderCreate =
  req_items :: "ItemCreate list"
  req_buyer_full_name :: string
  req_buyer_email :: string
  req_buyer_phone :: string
  req_delivery_address :: string

record Order =
  order_id :: UUID
  items :: "Item list"
  buyer_full_name :: string
  buyer_email :: string
  buyer_phone :: string
  delivery_address :: string
  payment_status :: PaymentStatus
  order_status :: OrderStatus
  created_at :: datetime
  updated_at :: datetime

text \<open>
  \<open>OrderResponse\<close> has the fields of \<open>Order\<close>, all required, and
  \<open>OrderResponse(**order.model_dump())\<close> copies them one by one.
\<close>

type_synonym OrderResponse = Order

definition OrderResponse :: "Order \<Rightarrow> OrderResponse" where
  "OrderResponse order = order"

text \<open>
  The constraints that the \<open>Field\<close> declarations of the request models put on a
  request: the framework checks them before it calls a handler.
\<close>

definition valid_ItemCreate :: "ItemCreate \<Rightarrow> bool" where
  "valid_ItemCreate item \<longleftrightarrow>
     1 \<le> length (main_colours item) \<and>
     (case comments item of None \<Rightarrow> True | Some c \<Rightarrow> length c \<le> 500)"

definition valid_OrderCreate :: "OrderCreate \<Rightarrow> bool" where
  "valid_OrderCreate order_data \<longleftrightarrow>
     1 \<le> length (req_items order_data) \<and>
     list_all valid_ItemCreate (req_items order_data) \<and>
     1 \<le> length (req_buyer_full_name order_data) \<and>
     length (req_buyer_full_name order_data) \<le> 100 \<and>
     3 \<le> length (req_buyer_email order_data) \<and>
     length (req_buyer_email order_data) \<le> 254 \<and>
     1 \<le> length (req_buyer_phone order_data) \<and>
     length (req_buyer_phone order_data) \<le> 20 \<and>
     1 \<le> length (req_delivery_address order_data) \<and>
     length (req_delivery_address order_data) \<le> 300"

text \<open>
  Constructing a model validates it. \<open>Item_init\<close> is \<open>Item(...)\<close> with every
  field given: a caller that leaves \<open>item_id\<close> or \<open>created_at\<close> out passes
  what the default factories \<open>uuid4()\<close> and \<open>datetime.utcnow()\<close> return. The
  size arrives as its token (a member of the string enum is its token). \<open>Item\<close>
  inherits the constraints of \<open>ItemCreate\<close>.
\<close>

definition Item_init ::
  "UUID \<Rightarrow> string list \<Rightarrow> string \<Rightarrow> string option \<Rightarrow> datetime \<Rightarrow> exn + Item" where
  "Item_init iid colours size_token comment created =
     (case BouquetSize_of size_token of
        None \<Rightarrow> Inl ValidationError
      | Some sz \<Rightarrow>
          if length colours < 1 then Inl ValidationError
          else if (case comment of None \<Rightarrow> False | Some c \<Rightarrow> 500 < length c)
          then Inl ValidationError
          else Inr \<lparr>main_colours = colours, bouquet_size = sz, comments = comment,
                    item_id = iid, item_created_at = created\<rparr>)"

text \<open>
  \<open>Order_init\<close> is \<open>Order(...)\<close>. The fields \<open>items\<close>,
  \<open>buyer_full_name\<close>, \<open>buyer_email\<close>, \<open>buyer_phone\<close> and
  \<open>delivery_address\<close> are declared \<open>Field(...)\<close>: required, no default. The two
  callers in the repository always pass \<open>items\<close>, \<open>buyer_full_name\<close> and
  \<open>delivery_address\<close>; \<open>buyer_email\<close> and \<open>buyer_phone\<close> are optional
  arguments here, \<open>None\<close> when the call does not pass the keyword. A missing
  required field raises \<open>ValidationError\<close>. The other five fields have defaults,
  which the caller passes when it leaves the keyword out.
\<close>

definition Order_init ::
  "UUID \<Rightarrow> Item list \<Rightarrow> string \<Rightarrow> string option \<Rightarrow> string option \<Rightarrow> string \<Rightarrow>
   PaymentStatus \<Rightarrow> OrderStatus \<Rightarrow> datetime \<Rightarrow> datetime \<Rightarrow> exn + Order" where
  "Order_init oid its name email phone address pstatus ostatus created updated =
     (case email of
        None \<Rightarrow> Inl ValidationError
      | Some e \<Rightarrow>
          (case phone of
             None \<Rightarrow> Inl ValidationError
           | Some p \<Rightarrow>
               Inr \<lparr>order_id = oid, items = its, buyer_full_name = name, buyer_email = e,
                    buyer_phone = p, delivery_address = address, payment_status = pstatus,
                    order_status = ostatus, created_at = created, updated_at = updated\<rparr>))"

text \<open>A list comprehension whose element expression can raise: the first raise wins.\<close>

fun collect :: "(exn + 'a) list \<Rightarrow> exn + 'a list" where
  "collect [] = Inr []"
| "collect (Inl e # _) = Inl e"
| "collect (Inr x # rs) = (case collect rs of Inl e \<Rightarrow> Inl e | Inr xs \<Rightarrow> Inr (x # xs))"

section \<open>The backing store and the adapter (database/firestore_adapter.py)\<close>

text \<open>
  A document of the \<open>orders\<close> collection is the dictionary that
  \<open>_order_to_dict\<close> builds: a record with exactly its keys. The collection is an
  association list from document id to document; \<open>stream()\<close> yields the documents
  in the list's order. Every remote call is appended to \<open>calls\<close>, so that "no
  storage access" and "no call to the payment processor" can be stated.
\<close>

record item_doc =
  doc_item_id :: string
  doc_main_colours :: "string list"
  doc_size :: string
  doc_comments :: "string option"
  doc_item_created_at :: datetime

record order_doc =
  doc_order_id :: string
  doc_items :: "item_doc list"
  doc_buyer_full_name :: string
  doc_delivery_address :: string
  doc_payment_status :: string
  doc_order_status :: string
  doc_created_at :: datetime
  doc_updated_at :: datetime

datatype remote_call =
    Firestore_get string
  | Firestore_set string
  | Firestore_update string
  | Firestore_stream
  | Stripe_PaymentIntent_create int string string

datatype AsyncClient = AsyncClient "string option"

record FirestoreAdapter =
  project_id :: "string option"
  db :: "AsyncClient option"

text \<open>
  The state a request handler runs in: the module-level \<open>_db_adapter\<close> of
  database/factory.py, the contents of the \<open>orders\<close> collection, and the remote
  calls made so far.
\<close>

record world =
  db_adapter :: "FirestoreAdapter option"
  orders :: "(string \<times> order_doc) list"
  calls :: "remote_call list"

definition document_get :: "string \<Rightarrow> world \<Rightarrow> order_doc option \<times> world" where
  "document_get k w = (map_of (orders w) k, w\<lparr>calls := calls w @ [Firestore_get k]\<rparr>)"

definition document_set :: "string \<Rightarrow> order_doc \<Rightarrow> world \<Rightarrow> world" where
  "document_set k d w =
     w\<lparr>orders := AList.update k d (orders w), calls := calls w @ [Firestore_set k]\<rparr>"

text \<open>\<open>doc_ref.update\<close> changes the given keys of an existing document and fails on a
  missing one.\<close>

definition document_update ::
  "string \<Rightarrow> (order_doc \<Rightarrow> order_doc) \<Rightarrow> world \<Rightarrow> (exn + unit) \<times> world" where
  "document_update k f w =
     (case map_of (orders w) k of
        None \<Rightarrow> (Inl NotFound, w\<lparr>calls := calls w @ [Firestore_update k]\<rparr>)
      | Some d \<Rightarrow>
          (Inr (), w\<lparr>orders := AList.update k (f d) (orders w),
                      calls := calls w @ [Firestore_update k]\<rparr>))"

definition collection_stream :: "world \<Rightarrow> order_doc list \<times> world" where
  "collection_stream w = (map snd (orders w), w\<lparr>calls := calls w @ [Firestore_stream]\<rparr>)"

definition not_initialized :: exn where
  "not_initialized = RuntimeError ''Database not initialized. Call initialize() first.''"

definition FirestoreAdapter_init :: "string option \<Rightarrow> FirestoreAdapter" where
  "FirestoreAdapter_init pid = \<lparr>project_id = pid, db = None\<rparr>"

definition initialize :: "FirestoreAdapter \<Rightarrow> FirestoreAdapter" where
  "initialize self =
     (case project_id self of
        None \<Rightarrow> self\<lparr>db := Some (AsyncClient None)\<rparr>
      | Some p \<Rightarrow>
          if p = [] then self\<lparr>db := Some (AsyncClient None)\<rparr>
          else self\<lparr>db := Some (AsyncClient (Some p))\<rparr>)"

definition item_to_dict :: "Item \<Rightarrow> item_doc" where
  "item_to_dict item =
     \<lparr>doc_item_id = str_UUID (item_id item),
      doc_main_colours = main_colours item,
      doc_size = BouquetSize_value (bouquet_size item),
      doc_comments = comments item,
      doc_item_created_at = item_created_at item\<rparr>"

definition order_to_dict :: "Order \<Rightarrow> order_doc" where
  "order_to_dict order =
     \<lparr>doc_order_id = str_UUID (order_id order),
      doc_items = map item_to_dict (items order),
      doc_buyer_full_name = buyer_full_name order,
      doc_delivery_address = delivery_address order,
      doc_payment_status = PaymentStatus_value (payment_status order),
      doc_order_status = OrderStatus_value (order_status order),
      doc_created_at = created_at order,
      doc_updated_at = updated_at order\<rparr>"

definition dict_to_item :: "(string \<Rightarrow> UUID option) \<Rightarrow> item_doc \<Rightarrow> exn + Item" where
  "dict_to_item parse item =
     (case parse (doc_item_id item) of
        None \<Rightarrow> Inl ValueError
      | Some iid \<Rightarrow>
          Item_init iid (doc_main_colours item) (doc_size item) (doc_comments item)
            (doc_item_created_at item))"

text \<open>
  \<open>_dict_to_order\<close> builds the items first, then evaluates the arguments of
  \<open>Order(...)\<close> from left to right, then calls it with the keywords
  \<open>order_id\<close>, \<open>items\<close>, \<open>buyer_full_name\<close>, \<open>delivery_address\<close>,
  \<open>payment_status\<close>, \<open>order_status\<close>, \<open>created_at\<close> and
  \<open>updated_at\<close>: neither \<open>buyer_email\<close> nor \<open>buyer_phone\<close>.
\<close>

definition dict_to_order :: "(string \<Rightarrow> UUID option) \<Rightarrow> order_doc \<Rightarrow> exn + Order" where
  "dict_to_order parse data =
     (case collect (map (dict_to_item parse) (doc_items data)) of
        Inl e \<Rightarrow> Inl e
      | Inr its \<Rightarrow>
          (case parse (doc_order_id data) of
             None \<Rightarrow> Inl ValueError
           | Some oid \<Rightarrow>
               (case PaymentStatus_of (doc_payment_status data) of
                  None \<Rightarrow> Inl ValueError
                | Some pstatus \<Rightarrow>
                    (case OrderStatus_of (doc_order_status data) of
                       None \<Rightarrow> Inl ValueError
                     | Some ostatus \<Rightarrow>
                         Order_init oid its (doc_buyer_full_name data) None None
                           (doc_delivery_address data) pstatus ostatus
                           (doc_created_at data) (doc_updated_at data)))))"

definition create_order :: "FirestoreAdapter \<Rightarrow> Order \<Rightarrow> world \<Rightarrow> (exn + Order) \<times> world" where
  "create_order self order w =
     (case db self of
        None \<Rightarrow> (Inl not_initialized, w)
      | Some _ \<Rightarrow>
          (Inr order, document_set (str_UUID (order_id order)) (order_to_dict order) w))"

definition get_order ::
  "FirestoreAdapter \<Rightarrow> (string \<Rightarrow> UUID option) \<Rightarrow> UUID \<Rightarrow> world \<Rightarrow>
   (exn + Order option) \<times> world" where
  "get_order self parse oid w =
     (case db self of
        None \<Rightarrow> (Inl not_initialized, w)
      | Some _ \<Rightarrow>
          (case document_get (str_UUID oid) w of
             (None, w1) \<Rightarrow> (Inr None, w1)
           | (Some data, w1) \<Rightarrow>
               (case dict_to_order parse data of
                  Inl e \<Rightarrow> (Inl e, w1)
                | Inr order \<Rightarrow> (Inr (Some order), w1))))"

text \<open>
  \<open>orders.sort(key=lambda x: x.created_at, reverse=True)\<close>: Python's sort is
  stable, and with \<open>reverse=True\<close> elements with equal keys keep their order.
\<close>

definition sort_created_at_reverse :: "Order list \<Rightarrow> Order list" where
  "sort_created_at_reverse os = rev (sort_key created_at (rev os))"

definition get_all_orders ::
  "FirestoreAdapter \<Rightarrow> (string \<Rightarrow> UUID option) \<Rightarrow> world \<Rightarrow> (exn + Order list) \<times> world" where
  "get_all_orders self parse w =
     (case db self of
        None \<Rightarrow> (Inl not_initialized, w)
      | Some _ \<Rightarrow>
          (case collection_stream w of
             (docs, w1) \<Rightarrow>
               (case collect (map (dict_to_order parse) docs) of
                  Inl e \<Rightarrow> (Inl e, w1)
                | Inr os \<Rightarrow> (Inr (sort_created_at_reverse os), w1))))"

text \<open>
  The two updates read the document, return \<open>None\<close> for a missing one, write the
  status token and \<open>datetime.utcnow()\<close> (the argument \<open>now\<close>), read the document
  again and convert it.
\<close>

definition read_back ::
  "(string \<Rightarrow> UUID option) \<Rightarrow> string \<Rightarrow> world \<Rightarrow> (exn + Order option) \<times> world" where
  "read_back parse k w =
     (case document_get k w of
        (None, w1) \<Rightarrow> (Inl TypeError, w1)
      | (Some data, w1) \<Rightarrow>
          (case dict_to_order parse data of
             Inl e \<Rightarrow> (Inl e, w1)
           | Inr order \<Rightarrow> (Inr (Some order), w1)))"

definition update_order_payment_status ::
  "FirestoreAdapter \<Rightarrow> (string \<Rightarrow> UUID option) \<Rightarrow> datetime \<Rightarrow> UUID \<Rightarrow> PaymentStatus \<Rightarrow>
   world \<Rightarrow> (exn + Order option) \<times> world" where
  "update_order_payment_status self parse now oid pstatus w =
     (case db self of
        None \<Rightarrow> (Inl not_initialized, w)
      | Some _ \<Rightarrow>
          (case document_get (str_UUID oid) w of
             (None, w1) \<Rightarrow> (Inr None, w1)
           | (Some _, w1) \<Rightarrow>
               (case document_update (str_UUID oid)
                       (\<lambda>d. d\<lparr>doc_payment_status := PaymentStatus_value pstatus,
                                doc_updated_at := now\<rparr>) w1 of
                  (Inl e, w2) \<Rightarrow> (Inl e, w2)
                | (Inr _, w2) \<Rightarrow> read_back parse (str_UUID oid) w2)))"

definition update_order_status ::
  "FirestoreAdapter \<Rightarrow> (string \<Rightarrow> UUID option) \<Rightarrow> datetime \<Rightarrow> UUID \<Rightarrow> OrderStatus \<Rightarrow>
   world \<Rightarrow> (exn + Order option) \<times> world" where
  "update_order_status self parse now oid ostatus w =
     (case db self of
        None \<Rightarrow> (Inl not_initialized, w)
      | Some _ \<Rightarrow>
          (case document_get (str_UUID oid) w of
             (None, w1) \<Rightarrow> (Inr None, w1)
           | (Some _, w1) \<Rightarrow>
               (case document_update (str_UUID oid)
                       (\<lambda>d. d\<lparr>doc_order_status := OrderStatus_value ostatus,
                                doc_updated_at := now\<rparr>) w1 of
                  (Inl e, w2) \<Rightarrow> (Inl e, w2)
                | (Inr _, w2) \<Rightarrow> read_back parse (str_UUID oid) w2)))"

section \<open>The adapter factory (database/factory.py)\<close>

definition get_database_adapter :: "world \<Rightarrow> exn + FirestoreAdapter" where
  "get_database_adapter w =
     (case db_adapter w of
        None \<Rightarrow> Inl (RuntimeError ''Database not initialized. Call initialize_database() first.'')
      | Some a \<Rightarrow> Inr a)"

definition initialize_database :: "string \<Rightarrow> string \<Rightarrow> world \<Rightarrow> (exn + FirestoreAdapter) \<times> world" where
  "initialize_database database_type google_cloud_project w =
     (if database_type = ''firestore''
      then (let a = initialize (FirestoreAdapter_init
                      (if google_cloud_project = [] then None else Some google_cloud_project))
            in (Inr a, w\<lparr>db_adapter := Some a\<rparr>))
      else (Inl ValueError, w))"

section \<open>Order handlers (routers/orders.py)\<close>

text \<open>
  What the default factories return during one call of \<open>submit_order\<close>:
  \<open>uuid4()\<close> and \<open>datetime.utcnow()\<close> for the i-th item, and \<open>uuid4()\<close> and
  two readings of \<open>datetime.utcnow()\<close> for the order.
\<close>

record factories =
  item_uuid4 :: "nat \<Rightarrow> UUID"
  item_utcnow :: "nat \<Rightarrow> datetime"
  order_uuid4 :: UUID
  order_utcnow_created :: datetime
  order_utcnow_updated :: datetime

definition order_not_found :: "UUID \<Rightarrow> exn" where
  "order_not_found oid = HTTPException 404 (''Order with ID '' @ str_UUID oid @ '' not found'')"

text \<open>
  \<open>submit_order\<close> builds an \<open>Item\<close> from every \<open>ItemCreate\<close>, then calls
  \<open>Order(items=items, buyer_full_name=..., delivery_address=...)\<close>, then stores the
  order and answers with it.
\<close>

definition submit_order ::
  "factories \<Rightarrow> OrderCreate \<Rightarrow> world \<Rightarrow> (exn + OrderResponse) \<times> world" where
  "submit_order f order_data w =
     (case collect
             (map (\<lambda>(i, item).
                     Item_init (item_uuid4 f i) (main_colours item)
                       (BouquetSize_value (bouquet_size item)) (comments item) (item_utcnow f i))
                (enumerate 0 (req_items order_data))) of
        Inl e \<Rightarrow> (Inl e, w)
      | Inr its \<Rightarrow>
          (case Order_init (order_uuid4 f) its (req_buyer_full_name order_data) None None
                  (req_delivery_address order_data) PaymentStatus_INCOMPLETE
                  OrderStatus_NOT_STARTED (order_utcnow_created f) (order_utcnow_updated f) of
             Inl e \<Rightarrow> (Inl e, w)
           | Inr order \<Rightarrow>
               (case get_database_adapter w of
                  Inl e \<Rightarrow> (Inl e, w)
                | Inr adapter \<Rightarrow>
                    (case create_order adapter order w of
                       (Inl e, w1) \<Rightarrow> (Inl e, w1)
                     | (Inr created_order, w1) \<Rightarrow> (Inr (OrderResponse created_order), w1)))))"

definition get_order_by_id ::
  "(string \<Rightarrow> UUID option) \<Rightarrow> UUID \<Rightarrow> world \<Rightarrow> (exn + OrderResponse) \<times> world" where
  "get_order_by_id parse oid w =
     (case get_database_adapter w of
        Inl e \<Rightarrow> (Inl e, w)
      | Inr adapter \<Rightarrow>
          (case get_order adapter parse oid w of
             (Inl e, w1) \<Rightarrow> (Inl e, w1)
           | (Inr None, w1) \<Rightarrow> (Inl (order_not_found oid), w1)
           | (Inr (Some order), w1) \<Rightarrow> (Inr (OrderResponse order), w1)))"

section \<open>Payment handlers (routers/payments.py)\<close>

record Settings =
  admin_api_key :: string
  stripe_webhook_secret :: string

record PaymentIntent =
  pi_order_id :: UUID
  pi_amount :: int
  pi_currency :: string

record PaymentIntentResponse =
  client_secret :: string
  payment_intent_id :: string
  amount :: int
  currency :: string

text \<open>
  The payment processor is outside the repository. \<open>stripe.PaymentIntent.create\<close>
  is the parameter \<open>create\<close> (amount, currency and the order id of the metadata to
  the intent or the exception raised), and \<open>stripe.Webhook.construct_event\<close> is the
  parameter \<open>construct_event\<close> (payload, signature header and secret to the event
  or the exception raised). Of an event the handler reads its type and
  \<open>data.object.metadata.order_id\<close>, \<open>None\<close> when the metadata has no such key.
\<close>

record stripe_event =
  event_type :: string
  event_order_id :: "string option"

record stripe_intent =
  intent_client_secret :: string
  intent_id :: string
  intent_amount :: int
  intent_currency :: string

definition create_payment_intent ::
  "(int \<Rightarrow> string \<Rightarrow> string \<Rightarrow> exn + stripe_intent) \<Rightarrow> (string \<Rightarrow> UUID option) \<Rightarrow>
   PaymentIntent \<Rightarrow> world \<Rightarrow> (exn + PaymentIntentResponse) \<times> world" where
  "create_payment_intent create parse payment_data w =
     (case get_database_adapter w of
        Inl e \<Rightarrow> (Inl e, w)
      | Inr adapter \<Rightarrow>
          (case get_order adapter parse (pi_order_id payment_data) w of
             (Inl e, w1) \<Rightarrow> (Inl e, w1)
           | (Inr None, w1) \<Rightarrow> (Inl (order_not_found (pi_order_id payment_data)), w1)
           | (Inr (Some order), w1) \<Rightarrow>
               if payment_status order = PaymentStatus_COMPLETED
               then (Inl (HTTPException 400 ''Order has already been paid''), w1)
               else
                 (let w2 = w1\<lparr>calls := calls w1 @
                             [Stripe_PaymentIntent_create (pi_amount payment_data)
                                (pi_currency payment_data)
                                (str_UUID (pi_order_id payment_data))]\<rparr>
                  in case create (pi_amount payment_data) (pi_currency payment_data)
                            (str_UUID (pi_order_id payment_data)) of
                       Inl (StripeError msg) \<Rightarrow>
                         (Inl (HTTPException 400 (''Stripe error: '' @ msg)), w2)
                     | Inl e \<Rightarrow> (Inl e, w2)
                     | Inr intent \<Rightarrow>
                         (Inr \<lparr>client_secret = intent_client_secret intent,
                               payment_intent_id = intent_id intent,
                               amount = intent_amount intent,
                               currency = intent_currency intent\<rparr>, w2))))"

datatype JSONResponse = JSONResponse "(string \<times> string) list"

definition success :: JSONResponse where
  "success = JSONResponse [(''status'', ''success'')]"

text \<open>Python's \<open>not s\<close> for an optional string: true for \<open>None\<close> and for the empty string.\<close>

fun py_not :: "string option \<Rightarrow> bool" where
  "py_not None = True"
| "py_not (Some s) = (s = [])"

text \<open>
  The body of the \<open>try\<close> block of the webhook handler: parse the order id, fetch
  the adapter, mark the order paid. A missing order only prints a warning.
\<close>

definition mark_paid ::
  "(string \<Rightarrow> UUID option) \<Rightarrow> datetime \<Rightarrow> string \<Rightarrow> world \<Rightarrow> (exn + unit) \<times> world" where
  "mark_paid parse now order_id_str w =
     (case parse order_id_str of
        None \<Rightarrow> (Inl ValueError, w)
      | Some oid \<Rightarrow>
          (case get_database_adapter w of
             Inl e \<Rightarrow> (Inl e, w)
           | Inr adapter \<Rightarrow>
               (case update_order_payment_status adapter parse now oid
                       PaymentStatus_COMPLETED w of
                  (Inl e, w1) \<Rightarrow> (Inl e, w1)
                | (Inr _, w1) \<Rightarrow> (Inr (), w1))))"

definition stripe_webhook ::
  "Settings \<Rightarrow> (string \<Rightarrow> string \<Rightarrow> string \<Rightarrow> exn + stripe_event) \<Rightarrow> (string \<Rightarrow> UUID option) \<Rightarrow>
   datetime \<Rightarrow> string option \<Rightarrow> string \<Rightarrow> world \<Rightarrow> (exn + JSONResponse) \<times> world" where
  "stripe_webhook settings construct_event parse now stripe_signature payload w =
     (if py_not stripe_signature
      then (Inl (HTTPException 400 ''Missing Stripe signature''), w)
      else
        (case construct_event payload (the stripe_signature) (stripe_webhook_secret settings) of
           Inl e \<Rightarrow>
             if isinstance_ValueError e then (Inl (HTTPException 400 ''Invalid payload''), w)
             else if e = SignatureVerificationError
             then (Inl (HTTPException 400 ''Invalid signature''), w)
             else (Inl e, w)
         | Inr event \<Rightarrow>
             if event_type event = ''payment_intent.succeeded''
             then
               (if py_not (event_order_id event) then (Inr success, w)
                else
                  (case mark_paid parse now (the (event_order_id event)) w of
                     (Inl e, w1) \<Rightarrow>
                       if isinstance_ValueError e then (Inr success, w1) else (Inl e, w1)
                   | (Inr _, w1) \<Rightarrow> (Inr success, w1)))
             else (Inr success, w)))"

section \<open>Management handlers (routers/manage.py)\<close>

text \<open>
  Modelled from the spec: the class behind
  \<open>api_key_header = APIKeyHeader(name="X-API-Key", auto_error=True)\<close> belongs to the
  web framework and is not among the repository's files. Section 4.5 states that the
  absence of the token fails with a forbidden error before any service logic runs: the
  header is read and, with \<open>auto_error\<close>, a request that has none (or an empty one)
  is rejected with status 403 before \<open>verify_admin_key\<close> is called.
\<close>

definition api_key_header :: "string option \<Rightarrow> exn + string" where
  "api_key_header x_api_key =
     (if py_not x_api_key then Inl (HTTPException 403 ''Not authenticated'')
      else Inr (the x_api_key))"

definition verify_admin_key :: "Settings \<Rightarrow> string \<Rightarrow> exn + string" where
  "verify_admin_key settings api_key =
     (if api_key \<noteq> admin_api_key settings then Inl (HTTPException 403 ''Invalid API key'')
      else Inr api_key)"

text \<open>\<open>dependencies=[Depends(verify_admin_key)]\<close>: the dependency runs first, and the
  handler only when it returns.\<close>

definition Depends_verify_admin_key ::
  "Settings \<Rightarrow> string option \<Rightarrow> (world \<Rightarrow> (exn + 'a) \<times> world) \<Rightarrow> world \<Rightarrow> (exn + 'a) \<times> world" where
  "Depends_verify_admin_key settings x_api_key handler w =
     (case api_key_header x_api_key of
        Inl e \<Rightarrow> (Inl e, w)
      | Inr api_key \<Rightarrow>
          (case verify_admin_key settings api_key of
             Inl e \<Rightarrow> (Inl e, w)
           | Inr _ \<Rightarrow> handler w))"

definition list_all_orders ::
  "(string \<Rightarrow> UUID option) \<Rightarrow> world \<Rightarrow> (exn + OrderResponse list) \<times> world" where
  "list_all_orders parse w =
     (case get_database_adapter w of
        Inl e \<Rightarrow> (Inl e, w)
      | Inr adapter \<Rightarrow>
          (case get_all_orders adapter parse w of
             (Inl e, w1) \<Rightarrow> (Inl e, w1)
           | (Inr os, w1) \<Rightarrow> (Inr (map OrderResponse os), w1)))"

definition update_order_processing_status ::
  "(string \<Rightarrow> UUID option) \<Rightarrow> datetime \<Rightarrow> UUID \<Rightarrow> OrderStatus \<Rightarrow> world \<Rightarrow>
   (exn + OrderResponse) \<times> world" where
  "update_order_processing_status parse now oid status_update w =
     (case get_database_adapter w of
        Inl e \<Rightarrow> (Inl e, w)
      | Inr adapter \<Rightarrow>
          (case get_order adapter parse oid w of
             (Inl e, w1) \<Rightarrow> (Inl e, w1)
           | (Inr None, w1) \<Rightarrow> (Inl (order_not_found oid), w1)
           | (Inr (Some order), w1) \<Rightarrow>
               (case update_order_status adapter parse now oid status_update w1 of
                  (Inl e, w2) \<Rightarrow> (Inl e, w2)
                | (Inr None, w2) \<Rightarrow>
                    (Inl (HTTPException 500 ''Failed to update order status''), w2)
                | (Inr (Some updated_order), w2) \<Rightarrow> (Inr (OrderResponse updated_order), w2))))"

definition get_order_details ::
  "(string \<Rightarrow> UUID option) \<Rightarrow> UUID \<Rightarrow> world \<Rightarrow> (exn + OrderResponse) \<times> world" where
  "get_order_details parse oid w =
     (case get_database_adapter w of
        Inl e \<Rightarrow> (Inl e, w)
      | Inr adapter \<Rightarrow>
          (case get_order adapter parse oid w of
             (Inl e, w1) \<Rightarrow> (Inl e, w1)
           | (Inr None, w1) \<Rightarrow> (Inl (order_not_found oid), w1)
           | (Inr (Some order), w1) \<Rightarrow> (Inr (OrderResponse order), w1)))"

text \<open>The three routes under \<open>/manage\<close>, each behind the dependency.\<close>

definition manage_list_all_orders ::
  "Settings \<Rightarrow> (string \<Rightarrow> UUID option) \<Rightarrow> string option \<Rightarrow> world \<Rightarrow>
   (exn + OrderResponse list) \<times> world" where
  "manage_list_all_orders settings parse x_api_key =
     Depends_verify_admin_key settings x_api_key (list_all_orders parse)"

definition manage_update_order_processing_status ::
  "Settings \<Rightarrow> (string \<Rightarrow> UUID option) \<Rightarrow> string option \<Rightarrow> datetime \<Rightarrow> UUID \<Rightarrow> OrderStatus \<Rightarrow>
   world \<Rightarrow> (exn + OrderResponse) \<times> world" where
  "manage_update_order_processing_status settings parse x_api_key now oid status_update =
     Depends_verify_admin_key settings x_api_key
       (update_order_processing_status parse now oid status_update)"

definition manage_get_order_details ::
  "Settings \<Rightarrow> (string \<Rightarrow> UUID option) \<Rightarrow> string option \<Rightarrow> UUID \<Rightarrow> world \<Rightarrow>
   (exn + OrderResponse) \<times> world" where
  "manage_get_order_details settings parse x_api_key oid =
     Depends_verify_admin_key settings x_api_key (get_order_details parse oid)"

text \<open>
  An exception that is not an \<open>HTTPException\<close> leaves the handler unhandled, and
  the server answers 500.
\<close>

fun status_code :: "exn \<Rightarrow> nat" where
  "status_code (HTTPException code _) = code"
| "status_code _ = 500"

section \<open>The routes as one step function (main.py)\<close>

text \<open>
  The application mounts the three routers; a request is dispatched to its handler
  after the framework has validated the body (an invalid body is answered 422 and
  no handler runs). \<open>handle\<close> gives the state after one request, \<open>run\<close> after
  a sequence of requests. The health routes touch no state and are left out.
\<close>

datatype request =
    POST_orders factories OrderCreate
  | GET_orders UUID
  | GET_manage_orders "string option"
  | PATCH_manage_orders_status "string option" datetime UUID OrderStatus
  | GET_manage_orders_id "string option" UUID
  | POST_payments_create_payment_intent PaymentIntent
  | POST_payments_webhook datetime "string option" string

fun handle ::
  "Settings \<Rightarrow> (int \<Rightarrow> string \<Rightarrow> string \<Rightarrow> exn + stripe_intent) \<Rightarrow>
   (string \<Rightarrow> string \<Rightarrow> string \<Rightarrow> exn + stripe_event) \<Rightarrow> (string \<Rightarrow> UUID option) \<Rightarrow>
   request \<Rightarrow> world \<Rightarrow> world" where
  "handle settings create construct_event parse (POST_orders f order_data) w =
     (if valid_OrderCreate order_data then snd (submit_order f order_data w) else w)"
| "handle settings create construct_event parse (GET_orders oid) w =
     snd (get_order_by_id parse oid w)"
| "handle settings create construct_event parse (GET_manage_orders x_api_key) w =
     snd (manage_list_all_orders settings parse x_api_key w)"
| "handle settings create construct_event parse
       (PATCH_manage_orders_status x_api_key now oid status_update) w =
     snd (manage_update_order_processing_status settings parse x_api_key now oid status_update w)"
| "handle settings create construct_event parse (GET_manage_orders_id x_api_key oid) w =
     snd (manage_get_order_details settings parse x_api_key oid w)"
| "handle settings create construct_event parse
       (POST_payments_create_payment_intent payment_data) w =
     (if 0 < pi_amount payment_data
      then snd (create_payment_intent create parse payment_data w) else w)"
| "handle settings create construct_event parse
       (POST_payments_webhook now stripe_signature payload) w =
     snd (stripe_webhook settings construct_event parse now stripe_signature payload w)"

fun run ::
  "Settings \<Rightarrow> (int \<Rightarrow> string \<Rightarrow> string \<Rightarrow> exn + stripe_intent) \<Rightarrow>
   (string \<Rightarrow> string \<Rightarrow> string \<Rightarrow> exn + stripe_event) \<Rightarrow> (string \<Rightarrow> UUID option) \<Rightarrow>
   request list \<Rightarrow> world \<Rightarrow> world" where
  "run settings create construct_event parse [] w = w"
| "run settings create construct_event parse (r # rs) w =
     run settings create construct_event parse rs
       (handle settings create construct_event parse r w)"

text \<open>The stored document \<open>k\<close> exists and carries the payment token \<open>Completed\<close>.\<close>

definition paid :: "string \<Rightarrow> world \<Rightarrow> bool" where
  "paid k w =
     (case map_of (orders w) k of
        None \<Rightarrow> False
      | Some d \<Rightarrow> doc_payment_status d = PaymentStatus_value PaymentStatus_COMPLETED)"

section \<open>Concrete inputs\<close>

text \<open>
  A parser for the concrete inputs below: it accepts exactly the canonical lower-case
  form of a UUID (8-4-4-4-12 hexadecimal digits), which Python's constructor accepts
  too and prints back unchanged.
\<close>

definition is_hex :: "char \<Rightarrow> bool" where
  "is_hex c = (c \<in> set ''0123456789abcdef'')"

definition canonical_UUID :: "string \<Rightarrow> UUID option" where
  "canonical_UUID s =
     (if length s = 36 \<and>
         list_all is_hex (take 8 s) \<and> take 1 (drop 8 s) = ''-'' \<and>
         list_all is_hex (take 4 (drop 9 s)) \<and> take 1 (drop 13 s) = ''-'' \<and>
         list_all is_hex (take 4 (drop 14 s)) \<and> take 1 (drop 18 s) = ''-'' \<and>
         list_all is_hex (take 4 (drop 19 s)) \<and> take 1 (drop 23 s) = ''-'' \<and>
         list_all is_hex (drop 24 s)
      then Some (UUID s) else None)"

text \<open>The request of the schema's own example, and an order as it would be built from it.\<close>

definition example_request :: OrderCreate where
  "example_request =
     \<lparr>req_items = [\<lparr>main_colours = [''red'', ''pink''], bouquet_size = MEDIUM,
                     comments = Some ''Please include roses''\<rparr>],
      req_buyer_full_name = ''Jane Smith'',
      req_buyer_email = ''jane.smith@example.com'',
      req_buyer_phone = ''+1-555-0123'',
      req_delivery_address = ''123 Main St, New York, NY 10001''\<rparr>"

definition example_id :: UUID where
  "example_id = UUID ''550e8400-e29b-41d4-a716-446655440000''"

definition example_order :: Order where
  "example_order =
     \<lparr>order_id = example_id,
      items = [\<lparr>main_colours = [''red'', ''pink''], bouquet_size = MEDIUM,
                 comments = Some ''Please include roses'',
                 item_id = UUID ''123e4567-e89b-42d3-a456-426614174000'',
                 item_created_at = 1000\<rparr>],
      buyer_full_name = ''Jane Smith'',
      buyer_email = ''jane.smith@example.com'',
      buyer_phone = ''+1-555-0123'',
      delivery_address = ''123 Main St, New York, NY 10001'',
      payment_status = PaymentStatus_INCOMPLETE,
      order_status = OrderStatus_NOT_STARTED,
      created_at = 1000,
      updated_at = 1000\<rparr>"

text \<open>
  The state after startup with an empty collection, the state after the adapter has
  stored the example order, and the state after it has stored the same order marked
  paid.
\<close>

definition example_adapter :: FirestoreAdapter where
  "example_adapter = initialize (FirestoreAdapter_init None)"

definition started :: world where
  "started =
     snd (initialize_database ''firestore'' []
            \<lparr>db_adapter = None, orders = [], calls = []\<rparr>)"

definition stored :: world where
  "stored = snd (create_order example_adapter example_order started)"

definition stored_paid :: world where
  "stored_paid =
     snd (create_order example_adapter
            (example_order\<lparr>payment_status := PaymentStatus_COMPLETED\<rparr>) started)"

definition example_settings :: Settings where
  "example_settings = \<lparr>admin_api_key = ''s3cret'', stripe_webhook_secret = ''whsec''\<rparr>"

text \<open>
  Default-factory results for one submission, and a \<open>construct_event\<close> that
  verifies every payload as a "payment succeeded" event with the given order id in
  its metadata.
\<close>

definition example_factories :: factories where
  "example_factories =
     \<lparr>item_uuid4 = (\<lambda>i. UUID ''123e4567-e89b-42d3-a456-426614174000''),
      item_utcnow = (\<lambda>i. 5000),
      order_uuid4 = UUID ''9b2c1d3e-4f5a-4b6c-8d7e-0f1a2b3c4d5e'',
      order_utcnow_created = 5000,
      order_utcnow_updated = 5000\<rparr>"

definition succeeded_event ::
  "string option \<Rightarrow> string \<Rightarrow> string \<Rightarrow> string \<Rightarrow> exn + stripe_event" where
  "succeeded_event oid payload sig_header secret =
     Inr \<lparr>event_type = ''payment_intent.succeeded'', event_order_id = oid\<rparr>"

section \<open>What the model constructors do to the repository's calls\<close>

lemma collect_all_errors:
  "list_all (\<lambda>r. case r of Inl e \<Rightarrow> P e | Inr _ \<Rightarrow> True) rs \<Longrightarrow> collect rs = Inl e \<Longrightarrow> P e"
  by (induction rs rule: collect.induct) (auto split: sum.splits)

lemma dict_to_item_error:
  "dict_to_item parse d = Inl e \<Longrightarrow> isinstance_ValueError e"
  by (auto simp: dict_to_item_def Item_init_def split: option.splits if_splits)

text \<open>
  \<open>_dict_to_order\<close> never returns: whatever the document, it ends in an exception
  that is a \<open>ValueError\<close>, at the latest the \<open>ValidationError\<close> of
  \<open>Order(...)\<close> for the two required fields it does not pass.
\<close>

lemma dict_to_order_raises:
  "\<exists>e. dict_to_order parse data = Inl e \<and> isinstance_ValueError e"
proof (cases "collect (map (dict_to_item parse) (doc_items data))")
  case (Inl e)
  have "list_all (\<lambda>r. case r of Inl e \<Rightarrow> isinstance_ValueError e | Inr _ \<Rightarrow> True)
          (map (dict_to_item parse) (doc_items data))"
    by (auto simp: list_all_iff dict_to_item_error split: sum.splits)
  then have "isinstance_ValueError e"
    using Inl by (rule collect_all_errors)
  with Inl show ?thesis by (simp add: dict_to_order_def)
next
  case (Inr its)
  then show ?thesis
    by (auto simp: dict_to_order_def Order_init_def split: option.splits)
qed

text \<open>
  \<open>submit_order\<close> never reaches the adapter: \<open>Order(...)\<close> is called without
  \<open>buyer_email\<close> and \<open>buyer_phone\<close> and raises.
\<close>

lemma submit_order_raises:
  "submit_order f order_data w = (Inl ValidationError, w)"
proof -
  let ?rs = "map (\<lambda>(i, item).
                     Item_init (item_uuid4 f i) (main_colours item)
                       (BouquetSize_value (bouquet_size item)) (comments item) (item_utcnow f i))
                (enumerate 0 (req_items order_data))"
  have all: "list_all (\<lambda>r. case r of Inl e \<Rightarrow> e = ValidationError | Inr _ \<Rightarrow> True) ?rs"
    by (auto simp: list_all_iff Item_init_def split: sum.splits option.splits if_splits)
  show ?thesis
  proof (cases "collect ?rs")
    case (Inl e)
    with all have "e = ValidationError" by (rule collect_all_errors)
    with Inl show ?thesis by (simp add: submit_order_def)
  next
    case (Inr its)
    then show ?thesis by (simp add: submit_order_def Order_init_def)
  qed
qed

lemma example_request_valid: "valid_OrderCreate example_request"
  by (simp add: valid_OrderCreate_def valid_ItemCreate_def example_request_def)

lemma example_adapter_db: "db example_adapter = Some (AsyncClient None)"
  by (simp add: example_adapter_def initialize_def FirestoreAdapter_init_def)

lemma started_eq: "started = \<lparr>db_adapter = Some example_adapter, orders = [], calls = []\<rparr>"
  by (simp add: started_def initialize_database_def example_adapter_def Let_def)

lemma example_dict_to_order:
  "dict_to_order canonical_UUID (order_to_dict example_order) = Inl ValidationError"
  by (simp add: dict_to_order_def order_to_dict_def item_to_dict_def example_order_def
      dict_to_item_def canonical_UUID_def is_hex_def Item_init_def BouquetSize_of_def
      PaymentStatus_of_def OrderStatus_of_def Order_init_def example_id_def)

section \<open>Submitting an order\<close>

text \<open>
  Claim C1 says that submitting a valid request with at least one item succeeds and
  returns the stored order with the buyer's name, email, phone and address. The handler
  does not: on the valid one-item request of the schema's example it raises
  \<open>ValidationError\<close> (answered with status 500) and stores nothing, whatever the
  identifiers and clock readings are.
\<close>

theorem submit_order_example_raises:
  "valid_OrderCreate example_request \<and>
   1 \<le> length (req_items example_request) \<and>
   submit_order f example_request started = (Inl ValidationError, started) \<and>
   status_code ValidationError = 500 \<and>
   orders started = []"
  using submit_order_raises [of f example_request started]
  by (simp add: example_request_valid) (simp add: example_request_def started_eq)

section \<open>Reading a stored order back\<close>

text \<open>
  Claim C2 says that \<open>getOrder\<close> returns a stored order exactly as written,
  including the buyer's email and phone. The adapter does not: after
  \<open>create_order\<close> has stored the example order, \<open>get_order\<close> on its id raises
  \<open>ValidationError\<close>, and the stored document is the same for two orders that
  differ in email and phone, so it does not hold them.
\<close>

theorem get_order_after_create_order_raises:
  "create_order example_adapter example_order started = (Inr example_order, stored) \<and>
   get_order example_adapter canonical_UUID (order_id example_order) stored =
     (Inl ValidationError,
      stored\<lparr>calls := calls stored @ [Firestore_get (str_UUID example_id)]\<rparr>) \<and>
   order_to_dict (example_order\<lparr>buyer_email := ''other@example.com'', buyer_phone := ''0''\<rparr>) =
     order_to_dict example_order"
  by (simp add: stored_def create_order_def example_adapter_db get_order_def document_get_def
      document_set_def started_eq example_dict_to_order)
     (simp add: example_order_def order_to_dict_def)

section \<open>The adapter's reads and writes\<close>

lemma get_order_orders: "orders (snd (get_order self parse oid w)) = orders w"
  by (simp add: get_order_def document_get_def split: option.splits sum.splits)

lemma get_order_stored:
  assumes "db self = Some client" and "map_of (orders w) (str_UUID oid) = Some d"
  shows "\<exists>e. get_order self parse oid w =
               (Inl e, w\<lparr>calls := calls w @ [Firestore_get (str_UUID oid)]\<rparr>) \<and>
             isinstance_ValueError e"
proof -
  obtain e where "dict_to_order parse d = Inl e" and "isinstance_ValueError e"
    using dict_to_order_raises by blast
  with assms show ?thesis
    by (simp add: get_order_def document_get_def)
qed

lemma get_order_missing:
  assumes "db self = Some client" and "map_of (orders w) (str_UUID oid) = None"
  shows "get_order self parse oid w =
           (Inr None, w\<lparr>calls := calls w @ [Firestore_get (str_UUID oid)]\<rparr>)"
  using assms by (simp add: get_order_def document_get_def)

lemma read_back_orders: "orders (snd (read_back parse k w)) = orders w"
  by (simp add: read_back_def document_get_def split: option.splits sum.splits)

lemma update_order_payment_status_stored:
  assumes "db self = Some client" and "map_of (orders w) (str_UUID oid) = Some d"
  shows "orders (snd (update_order_payment_status self parse now oid pstatus w)) =
           AList.update (str_UUID oid)
             (d\<lparr>doc_payment_status := PaymentStatus_value pstatus, doc_updated_at := now\<rparr>)
             (orders w)"
  using assms
  by (simp add: update_order_payment_status_def document_get_def document_update_def
      read_back_orders)

lemma update_order_payment_status_missing:
  assumes "db self = Some client" and "map_of (orders w) (str_UUID oid) = None"
  shows "update_order_payment_status self parse now oid pstatus w =
           (Inr None, w\<lparr>calls := calls w @ [Firestore_get (str_UUID oid)]\<rparr>)"
  using assms by (simp add: update_order_payment_status_def document_get_def)

lemma stored_orders: "orders stored = [(str_UUID example_id, order_to_dict example_order)]"
  by (simp add: stored_def create_order_def example_adapter_db document_set_def started_eq
      example_order_def)

section \<open>Updating the payment status\<close>

text \<open>
  Claim C3, as amended: for an initialised adapter and every stored order id and
  payment status, \<open>update_order_payment_status\<close> changes in the stored record
  exactly the payment status token and the updated timestamp, which becomes the clock
  reading taken at the update; every other field of the record and every other
  record stay as they were. For an id with no stored order it returns absent and
  leaves the collection as it was. The timestamp is later than the creation
  timestamp exactly when the clock reading is.
\<close>

theorem update_order_payment_status_effect:
  assumes "db self = Some client"
  shows "(map_of (orders w) (str_UUID oid) = Some d \<longrightarrow>
            map_of (orders (snd (update_order_payment_status self parse now oid pstatus w))) =
              (map_of (orders w))
                (str_UUID oid \<mapsto>
                   d\<lparr>doc_payment_status := PaymentStatus_value pstatus, doc_updated_at := now\<rparr>)) \<and>
         (map_of (orders w) (str_UUID oid) = None \<longrightarrow>
            fst (update_order_payment_status self parse now oid pstatus w) = Inr None \<and>
            orders (snd (update_order_payment_status self parse now oid pstatus w)) = orders w)"
  using assms
  by (simp add: update_order_payment_status_stored update_order_payment_status_missing
      update_conv')

text \<open>
  The amended claim C3 at concrete inputs: marking the stored example order paid at
  clock reading 2000 changes its two fields, and on the empty collection the update
  returns absent and stores nothing.
\<close>

theorem update_order_payment_status_effect_witness:
  "map_of (orders (snd (update_order_payment_status example_adapter canonical_UUID 2000
                          example_id PaymentStatus_COMPLETED stored))) =
     [str_UUID example_id \<mapsto>
        (order_to_dict example_order)\<lparr>doc_payment_status := ''Completed'',
                                       doc_updated_at := 2000\<rparr>] \<and>
   fst (update_order_payment_status example_adapter canonical_UUID 2000
          example_id PaymentStatus_COMPLETED started) = Inr None \<and>
   orders (snd (update_order_payment_status example_adapter canonical_UUID 2000
          example_id PaymentStatus_COMPLETED started)) = []"
  using update_order_payment_status_effect [OF example_adapter_db,
      of stored example_id "order_to_dict example_order" canonical_UUID 2000
         PaymentStatus_COMPLETED]
    update_order_payment_status_effect [OF example_adapter_db,
      of started example_id "order_to_dict example_order" canonical_UUID 2000
         PaymentStatus_COMPLETED]
  by (simp add: stored_orders) (simp add: started_eq)

text \<open>
  Claim C3 as stated fails: it says the updated timestamp becomes strictly later than
  the creation timestamp. The example order was created at clock reading 1000; an
  update whose \<open>datetime.utcnow()\<close> reads 1000 again stores an updated timestamp
  that is not later.
\<close>

theorem update_at_creation_time_not_later:
  "orders (snd (update_order_payment_status example_adapter canonical_UUID 1000 example_id
                  PaymentStatus_COMPLETED stored)) =
     [(str_UUID example_id,
       (order_to_dict example_order)\<lparr>doc_payment_status := ''Completed'',
                                      doc_updated_at := 1000\<rparr>)] \<and>
   \<not> doc_created_at (order_to_dict example_order) <
       doc_updated_at ((order_to_dict example_order)\<lparr>doc_payment_status := ''Completed'',
                                                      doc_updated_at := 1000\<rparr>)"
  by (simp add: update_order_payment_status_stored [OF example_adapter_db] stored_orders)
     (simp add: order_to_dict_def example_order_def)

section \<open>Handlers on a stored order\<close>

lemma stored_adapter: "get_database_adapter stored = Inr example_adapter"
  by (simp add: get_database_adapter_def stored_def create_order_def example_adapter_db
      document_set_def started_eq)

lemma get_order_stored_example:
  "get_order example_adapter canonical_UUID example_id stored =
     (Inl ValidationError, stored\<lparr>calls := calls stored @ [Firestore_get (str_UUID example_id)]\<rparr>)"
  by (simp add: get_order_def example_adapter_db document_get_def stored_orders
      example_dict_to_order)

lemma stored_paid_orders:
  "orders stored_paid =
     [(str_UUID example_id,
       order_to_dict (example_order\<lparr>payment_status := PaymentStatus_COMPLETED\<rparr>))]"
  by (simp add: stored_paid_def create_order_def example_adapter_db document_set_def started_eq
      example_order_def)

lemma stored_paid_adapter: "get_database_adapter stored_paid = Inr example_adapter"
  by (simp add: get_database_adapter_def stored_paid_def create_order_def example_adapter_db
      document_set_def started_eq)

lemma example_paid_dict_to_order:
  "dict_to_order canonical_UUID
     (order_to_dict (example_order\<lparr>payment_status := PaymentStatus_COMPLETED\<rparr>)) =
   Inl ValidationError"
  by (simp add: dict_to_order_def order_to_dict_def item_to_dict_def example_order_def
      dict_to_item_def canonical_UUID_def is_hex_def Item_init_def BouquetSize_of_def
      PaymentStatus_of_def OrderStatus_of_def Order_init_def example_id_def)

text \<open>
  Every handler that starts by loading a stored order stops there, for every stored
  document: the load raises and nothing is written.
\<close>

lemma update_order_processing_status_stored:
  assumes "db_adapter w = Some adapter" and "db adapter = Some client"
    and "map_of (orders w) (str_UUID oid) = Some d"
  shows "\<exists>e. update_order_processing_status parse now oid status_update w =
               (Inl e, w\<lparr>calls := calls w @ [Firestore_get (str_UUID oid)]\<rparr>) \<and>
             isinstance_ValueError e"
proof -
  obtain e where "get_order adapter parse oid w =
        (Inl e, w\<lparr>calls := calls w @ [Firestore_get (str_UUID oid)]\<rparr>)"
      and "isinstance_ValueError e"
    using get_order_stored [OF assms(2,3)] by blast
  with assms(1) show ?thesis
    by (simp add: update_order_processing_status_def get_database_adapter_def)
qed

lemma create_payment_intent_stored:
  assumes "db_adapter w = Some adapter" and "db adapter = Some client"
    and "map_of (orders w) (str_UUID (pi_order_id payment_data)) = Some d"
  shows "\<exists>e. create_payment_intent create parse payment_data w =
               (Inl e, w\<lparr>calls := calls w @
                            [Firestore_get (str_UUID (pi_order_id payment_data))]\<rparr>) \<and>
             isinstance_ValueError e"
proof -
  obtain e where "get_order adapter parse (pi_order_id payment_data) w =
        (Inl e, w\<lparr>calls := calls w @ [Firestore_get (str_UUID (pi_order_id payment_data))]\<rparr>)"
      and "isinstance_ValueError e"
    using get_order_stored [OF assms(2,3)] by blast
  with assms(1) show ?thesis
    by (simp add: create_payment_intent_def get_database_adapter_def)
qed

lemma create_payment_intent_missing:
  assumes "db_adapter w = Some adapter" and "db adapter = Some client"
    and "map_of (orders w) (str_UUID (pi_order_id payment_data)) = None"
  shows "create_payment_intent create parse payment_data w =
           (Inl (order_not_found (pi_order_id payment_data)),
            w\<lparr>calls := calls w @ [Firestore_get (str_UUID (pi_order_id payment_data))]\<rparr>)"
  using assms
  by (simp add: create_payment_intent_def get_database_adapter_def get_order_missing)

lemma update_order_processing_status_missing:
  assumes "db_adapter w = Some adapter" and "db adapter = Some client"
    and "map_of (orders w) (str_UUID oid) = None"
  shows "update_order_processing_status parse now oid status_update w =
           (Inl (order_not_found oid),
            w\<lparr>calls := calls w @ [Firestore_get (str_UUID oid)]\<rparr>)"
  using assms
  by (simp add: update_order_processing_status_def get_database_adapter_def get_order_missing)

text \<open>
  On any non-empty collection \<open>get_all_orders\<close> raises at the first document, and
  the sort it would apply orders by creation time, newest first.
\<close>

lemma get_all_orders_nonempty_raises:
  assumes "db self = Some client" and "orders w \<noteq> []"
  shows "\<exists>e. fst (get_all_orders self parse w) = Inl e"
proof -
  obtain k d rest where o: "orders w = (k, d) # rest"
    using assms(2) by (cases "orders w") auto
  obtain e where "dict_to_order parse d = Inl e"
    using dict_to_order_raises by blast
  with assms(1) o show ?thesis
    by (simp add: get_all_orders_def collection_stream_def)
qed

lemma sort_created_at_reverse_sorted:
  "sorted_wrt (\<lambda>a b. created_at b \<le> created_at a) (sort_created_at_reverse os)"
proof -
  have "sorted (map created_at (sort_key created_at (rev os)))"
    by (rule sorted_sort_key)
  then have "sorted_wrt (\<lambda>a b. created_at a \<le> created_at b) (sort_key created_at (rev os))"
    by (simp add: sorted_map)
  then show ?thesis
    by (simp add: sort_created_at_reverse_def sorted_wrt_rev)
qed

lemma sort_created_at_reverse_set: "set (sort_created_at_reverse os) = set os"
  by (simp add: sort_created_at_reverse_def)

section \<open>Updating the order status\<close>

text \<open>
  Claim C4 says that the admin update sets the order status of every stored order to
  the requested value. The handler does not reach the write: on the stored example
  order its first step, \<open>get_order\<close>, raises \<open>ValidationError\<close> (answered with
  status 500), the only remote call is that read, and the stored status stays
  \<open>Not Started\<close>.
\<close>

theorem update_order_processing_status_stored_raises:
  "update_order_processing_status canonical_UUID 2000 example_id OrderStatus_IN_PROGRESS stored =
     (Inl ValidationError,
      stored\<lparr>calls := calls stored @ [Firestore_get (str_UUID example_id)]\<rparr>) \<and>
   status_code ValidationError = 500 \<and>
   map (doc_order_status \<circ> snd) (orders stored) = [''Not Started'']"
  by (simp add: update_order_processing_status_def stored_adapter get_order_stored_example
      stored_orders)
     (simp add: order_to_dict_def example_order_def)

section \<open>Creating a payment intent\<close>

text \<open>
  Claim C5 says that a payment intent for a stored order that is already paid fails
  with the conflict error. The handler does not reach that check: on the stored, paid
  example order \<open>get_order\<close> raises \<open>ValidationError\<close> (answered with status 500,
  not the 400 of "Order has already been paid"). The payment processor is not called:
  the only remote call is the read.
\<close>

theorem create_payment_intent_paid_raises:
  "paid (str_UUID example_id) stored_paid \<and>
   create_payment_intent create canonical_UUID
       \<lparr>pi_order_id = example_id, pi_amount = 5000, pi_currency = ''usd''\<rparr> stored_paid =
     (Inl ValidationError,
      stored_paid\<lparr>calls := calls stored_paid @ [Firestore_get (str_UUID example_id)]\<rparr>) \<and>
   status_code ValidationError = 500"
  by (simp add: paid_def stored_paid_orders create_payment_intent_def stored_paid_adapter
      get_order_def example_adapter_db document_get_def example_paid_dict_to_order)
     (simp add: order_to_dict_def)

section \<open>Listing the orders\<close>

text \<open>
  Claim C9 says that \<open>getAllOrders\<close> returns every stored order, newest first. The
  adapter does not: on the collection that holds the one example order it raises
  \<open>ValidationError\<close> while converting the document.
\<close>

theorem get_all_orders_stored_raises:
  "get_all_orders example_adapter canonical_UUID stored =
     (Inl ValidationError, stored\<lparr>calls := calls stored @ [Firestore_stream]\<rparr>) \<and>
   length (orders stored) = 1"
  by (simp add: get_all_orders_def example_adapter_db collection_stream_def stored_orders
      example_dict_to_order)

section \<open>The webhook\<close>

text \<open>
  Claim C6: the webhook handler rejects a request with a client error (status 400)
  when the signature header is missing (absent or empty), when verification fails on
  the payload (a \<open>ValueError\<close>) and when the signature is invalid, with a different
  detail for each, and in each case the state is untouched: no order was looked up and
  no remote call was made.
\<close>

theorem stripe_webhook_rejects_unverified:
  "(py_not stripe_signature \<longrightarrow>
      stripe_webhook settings construct_event parse now stripe_signature payload w =
        (Inl (HTTPException 400 ''Missing Stripe signature''), w)) \<and>
   (\<not> py_not stripe_signature \<and>
    construct_event payload (the stripe_signature) (stripe_webhook_secret settings) = Inl e \<and>
    isinstance_ValueError e \<longrightarrow>
      stripe_webhook settings construct_event parse now stripe_signature payload w =
        (Inl (HTTPException 400 ''Invalid payload''), w)) \<and>
   (\<not> py_not stripe_signature \<and>
    construct_event payload (the stripe_signature) (stripe_webhook_secret settings) =
      Inl SignatureVerificationError \<longrightarrow>
      stripe_webhook settings construct_event parse now stripe_signature payload w =
        (Inl (HTTPException 400 ''Invalid signature''), w)) \<and>
   distinct [HTTPException 400 ''Missing Stripe signature'', HTTPException 400 ''Invalid payload'',
             HTTPException 400 ''Invalid signature'']"
  by (simp add: stripe_webhook_def)

text \<open>
  Claim C6 at concrete requests: no header, an empty header, a payload that does not
  verify, and a bad signature, against the collection that holds the example order.
\<close>

theorem stripe_webhook_rejects_unverified_witness:
  "stripe_webhook example_settings (\<lambda>p s k. Inl ValueError) canonical_UUID 2000 None ''{}'' stored =
     (Inl (HTTPException 400 ''Missing Stripe signature''), stored) \<and>
   stripe_webhook example_settings (\<lambda>p s k. Inl ValueError) canonical_UUID 2000 (Some [])
       ''{}'' stored =
     (Inl (HTTPException 400 ''Missing Stripe signature''), stored) \<and>
   stripe_webhook example_settings (\<lambda>p s k. Inl ValueError) canonical_UUID 2000
       (Some ''t=1,v1=ab'') ''not json'' stored =
     (Inl (HTTPException 400 ''Invalid payload''), stored) \<and>
   stripe_webhook example_settings (\<lambda>p s k. Inl SignatureVerificationError) canonical_UUID 2000
       (Some ''t=1,v1=ab'') ''{}'' stored =
     (Inl (HTTPException 400 ''Invalid signature''), stored)"
  using stripe_webhook_rejects_unverified
      [where stripe_signature = None and settings = example_settings and
         construct_event = "\<lambda>p s k. Inl ValueError" and parse = canonical_UUID and
         now = 2000 and payload = "''{}''" and w = stored]
    stripe_webhook_rejects_unverified
      [where stripe_signature = "Some []" and settings = example_settings and
         construct_event = "\<lambda>p s k. Inl ValueError" and parse = canonical_UUID and
         now = 2000 and payload = "''{}''" and w = stored]
    stripe_webhook_rejects_unverified
      [where stripe_signature = "Some ''t=1,v1=ab''" and settings = example_settings and
         construct_event = "\<lambda>p s k. Inl ValueError" and parse = canonical_UUID and
         now = 2000 and payload = "''not json''" and w = stored and e = ValueError]
    stripe_webhook_rejects_unverified
      [where stripe_signature = "Some ''t=1,v1=ab''" and settings = example_settings and
         construct_event = "\<lambda>p s k. Inl SignatureVerificationError" and
         parse = canonical_UUID and now = 2000 and payload = "''{}''" and w = stored]
  by simp

lemma mark_paid_unparsed:
  "parse s = None \<Longrightarrow> mark_paid parse now s w = (Inl ValueError, w)"
  by (simp add: mark_paid_def)

lemma mark_paid_missing:
  assumes "parse s = Some oid" and "db_adapter w = Some adapter" and "db adapter = Some client"
    and "map_of (orders w) (str_UUID oid) = None"
  shows "mark_paid parse now s w =
           (Inr (), w\<lparr>calls := calls w @ [Firestore_get (str_UUID oid)]\<rparr>)"
  using assms
  by (simp add: mark_paid_def get_database_adapter_def update_order_payment_status_missing)

text \<open>
  Claim C7: for a verified "payment succeeded" event the handler answers with the
  success acknowledgment when the order id of the metadata is missing (absent or
  empty), when it is malformed (it does not parse), and, once the adapter is
  initialised, when it names an order that is not stored; in the last case the
  collection is left as it was.
\<close>

theorem stripe_webhook_acknowledges:
  assumes "\<not> py_not stripe_signature"
    and "construct_event payload (the stripe_signature) (stripe_webhook_secret settings) =
           Inr event"
    and "event_type event = ''payment_intent.succeeded''"
  shows "(py_not (event_order_id event) \<longrightarrow>
            stripe_webhook settings construct_event parse now stripe_signature payload w =
              (Inr success, w)) \<and>
         (\<not> py_not (event_order_id event) \<and> parse (the (event_order_id event)) = None \<longrightarrow>
            stripe_webhook settings construct_event parse now stripe_signature payload w =
              (Inr success, w)) \<and>
         (\<not> py_not (event_order_id event) \<and> parse (the (event_order_id event)) = Some oid \<and>
          db_adapter w = Some adapter \<and> db adapter = Some client \<and>
          map_of (orders w) (str_UUID oid) = None \<longrightarrow>
            fst (stripe_webhook settings construct_event parse now stripe_signature payload w) =
              Inr success \<and>
            orders (snd (stripe_webhook settings construct_event parse now stripe_signature
                           payload w)) = orders w)"
  using assms
  by (auto simp: stripe_webhook_def mark_paid_unparsed mark_paid_missing)

text \<open>
  Claim C7 at concrete events: no order id, the order id \<open>not-a-uuid\<close>, and a
  well-formed id that is not in the collection.
\<close>

theorem stripe_webhook_acknowledges_witness:
  "stripe_webhook example_settings (succeeded_event None) canonical_UUID 2000
       (Some ''t=1,v1=ab'') ''{}'' stored = (Inr success, stored) \<and>
   stripe_webhook example_settings (succeeded_event (Some ''not-a-uuid'')) canonical_UUID 2000
       (Some ''t=1,v1=ab'') ''{}'' stored = (Inr success, stored) \<and>
   fst (stripe_webhook example_settings
          (succeeded_event (Some ''00000000-0000-4000-8000-000000000000'')) canonical_UUID 2000
          (Some ''t=1,v1=ab'') ''{}'' stored) = Inr success \<and>
   orders (snd (stripe_webhook example_settings
          (succeeded_event (Some ''00000000-0000-4000-8000-000000000000'')) canonical_UUID 2000
          (Some ''t=1,v1=ab'') ''{}'' stored)) = orders stored"
proof -
  have sig: "\<not> py_not (Some ''t=1,v1=ab'')" by simp
  have ev: "succeeded_event x ''{}'' (the (Some ''t=1,v1=ab''))
              (stripe_webhook_secret example_settings) =
            Inr \<lparr>event_type = ''payment_intent.succeeded'', event_order_id = x\<rparr>" for x
    by (simp add: succeeded_event_def)
  have ty: "event_type \<lparr>event_type = ''payment_intent.succeeded'', event_order_id = x\<rparr> =
            ''payment_intent.succeeded''" for x
    by simp
  have bad: "canonical_UUID ''not-a-uuid'' = None"
    by (simp add: canonical_UUID_def)
  have good: "canonical_UUID ''00000000-0000-4000-8000-000000000000'' =
              Some (UUID ''00000000-0000-4000-8000-000000000000'')"
    by (simp add: canonical_UUID_def is_hex_def)
  have ad: "db_adapter stored = Some example_adapter"
    by (simp add: stored_def create_order_def example_adapter_db document_set_def started_eq)
  have missing: "map_of (orders stored) ''00000000-0000-4000-8000-000000000000'' = None"
    by (simp add: stored_orders example_id_def)
  show ?thesis
    using stripe_webhook_acknowledges
        [where stripe_signature = "Some ''t=1,v1=ab''" and settings = example_settings
          and construct_event = "succeeded_event None" and payload = "''{}''"
          and event = "\<lparr>event_type = ''payment_intent.succeeded'', event_order_id = None\<rparr>"
          and parse = canonical_UUID and now = 2000 and w = stored]
      stripe_webhook_acknowledges
        [where stripe_signature = "Some ''t=1,v1=ab''" and settings = example_settings
          and construct_event = "succeeded_event (Some ''not-a-uuid'')" and payload = "''{}''"
          and event = "\<lparr>event_type = ''payment_intent.succeeded'',
                          event_order_id = Some ''not-a-uuid''\<rparr>"
          and parse = canonical_UUID and now = 2000 and w = stored]
      stripe_webhook_acknowledges
        [where stripe_signature = "Some ''t=1,v1=ab''" and settings = example_settings
          and construct_event =
            "succeeded_event (Some ''00000000-0000-4000-8000-000000000000'')"
          and payload = "''{}''"
          and event = "\<lparr>event_type = ''payment_intent.succeeded'',
                          event_order_id = Some ''00000000-0000-4000-8000-000000000000''\<rparr>"
          and parse = canonical_UUID and now = 2000 and w = stored
          and adapter = example_adapter
          and oid = "UUID ''00000000-0000-4000-8000-000000000000''"
          and client = "AsyncClient None"]
    by (simp add: succeeded_event_def bad good ad missing example_adapter_db)
qed

section \<open>The admin key\<close>

text \<open>
  Claim C8: a request to any of the three routes under \<open>/manage\<close> whose key header
  is absent or differs from the configured secret is answered with a 403 error, and
  the state is untouched: the handler did not run and nothing was read or written.
\<close>

theorem admin_routes_forbidden:
  assumes "x_api_key \<noteq> Some (admin_api_key settings)"
  shows "(\<exists>detail. manage_list_all_orders settings parse x_api_key w =
                     (Inl (HTTPException 403 detail), w)) \<and>
         (\<exists>detail. manage_update_order_processing_status settings parse x_api_key now oid
                       status_update w = (Inl (HTTPException 403 detail), w)) \<and>
         (\<exists>detail. manage_get_order_details settings parse x_api_key oid w =
                     (Inl (HTTPException 403 detail), w))"
  using assms
  by (cases x_api_key)
     (auto simp: manage_list_all_orders_def manage_update_order_processing_status_def
        manage_get_order_details_def Depends_verify_admin_key_def api_key_header_def
        verify_admin_key_def)

text \<open>
  Claim C8 at concrete requests: no key on the listing, and a wrong key on the status
  update and on the admin read.
\<close>

theorem admin_routes_forbidden_witness:
  "(\<exists>detail. manage_list_all_orders example_settings canonical_UUID None stored =
              (Inl (HTTPException 403 detail), stored)) \<and>
   (\<exists>detail. manage_update_order_processing_status example_settings canonical_UUID
                (Some ''guess'') 2000 example_id OrderStatus_COMPLETED stored =
              (Inl (HTTPException 403 detail), stored)) \<and>
   (\<exists>detail. manage_get_order_details example_settings canonical_UUID (Some ''guess'')
                example_id stored =
              (Inl (HTTPException 403 detail), stored))"
proof -
  have absent: "None \<noteq> Some (admin_api_key example_settings)" by simp
  have wrong: "Some ''guess'' \<noteq> Some (admin_api_key example_settings)"
    by (simp add: example_settings_def)
  show ?thesis
    using admin_routes_forbidden [OF absent, of canonical_UUID stored 2000 example_id
        OrderStatus_COMPLETED]
      admin_routes_forbidden [OF wrong, of canonical_UUID stored 2000 example_id
        OrderStatus_COMPLETED]
    by blast
qed

section \<open>The payment status never goes back\<close>

lemma paid_orders: "paid k w \<Longrightarrow> orders w' = orders w \<Longrightarrow> paid k w'"
  by (simp add: paid_def)

lemma paid_calls: "paid k (w\<lparr>calls := c\<rparr>) = paid k w"
  by (simp add: paid_def)

lemma get_all_orders_orders: "orders (snd (get_all_orders self parse w)) = orders w"
  by (simp add: get_all_orders_def collection_stream_def split: option.splits sum.splits)

lemma update_order_payment_status_paid:
  assumes "paid k w"
  shows "paid k (snd (update_order_payment_status self parse now oid PaymentStatus_COMPLETED w))"
proof (cases "db self")
  case None
  with assms show ?thesis by (simp add: update_order_payment_status_def)
next
  case (Some client)
  show ?thesis
  proof (cases "map_of (orders w) (str_UUID oid)")
    case None
    with Some assms show ?thesis
      by (simp add: update_order_payment_status_missing paid_calls)
  next
    case (Some d)
    with \<open>db self = Some client\<close> assms show ?thesis
      by (simp add: update_order_payment_status_stored paid_def update_conv')
  qed
qed

lemma update_order_status_paid:
  assumes "paid k w"
  shows "paid k (snd (update_order_status self parse now oid ostatus w))"
proof (cases "db self")
  case None
  with assms show ?thesis by (simp add: update_order_status_def)
next
  case (Some client)
  show ?thesis
  proof (cases "map_of (orders w) (str_UUID oid)")
    case None
    with Some assms show ?thesis
      by (simp add: update_order_status_def document_get_def paid_def)
  next
    case (Some d)
    with \<open>db self = Some client\<close> assms show ?thesis
      by (auto simp: update_order_status_def document_get_def document_update_def
          read_back_orders paid_def update_conv')
  qed
qed

lemma get_order_by_id_orders: "orders (snd (get_order_by_id parse oid w)) = orders w"
proof (cases "get_database_adapter w")
  case (Inl e)
  then show ?thesis by (simp add: get_order_by_id_def)
next
  case (Inr adapter)
  obtain r w1 where g: "get_order adapter parse oid w = (r, w1)"
    by (cases "get_order adapter parse oid w")
  with get_order_orders [of adapter parse oid w] have "orders w1 = orders w" by simp
  with Inr g show ?thesis
    by (simp add: get_order_by_id_def split: sum.splits option.splits)
qed

lemma get_order_details_orders: "orders (snd (get_order_details parse oid w)) = orders w"
proof (cases "get_database_adapter w")
  case (Inl e)
  then show ?thesis by (simp add: get_order_details_def)
next
  case (Inr adapter)
  obtain r w1 where g: "get_order adapter parse oid w = (r, w1)"
    by (cases "get_order adapter parse oid w")
  with get_order_orders [of adapter parse oid w] have "orders w1 = orders w" by simp
  with Inr g show ?thesis
    by (simp add: get_order_details_def split: sum.splits option.splits)
qed

lemma list_all_orders_orders: "orders (snd (list_all_orders parse w)) = orders w"
proof (cases "get_database_adapter w")
  case (Inl e)
  then show ?thesis by (simp add: list_all_orders_def)
next
  case (Inr adapter)
  obtain r w1 where g: "get_all_orders adapter parse w = (r, w1)"
    by (cases "get_all_orders adapter parse w")
  with get_all_orders_orders [of adapter parse w] have "orders w1 = orders w" by simp
  with Inr g show ?thesis
    by (simp add: list_all_orders_def split: sum.splits)
qed

lemma create_payment_intent_orders:
  "orders (snd (create_payment_intent create parse payment_data w)) = orders w"
proof (cases "get_database_adapter w")
  case (Inl e)
  then show ?thesis by (simp add: create_payment_intent_def)
next
  case (Inr adapter)
  obtain r w1 where g: "get_order adapter parse (pi_order_id payment_data) w = (r, w1)"
    by (cases "get_order adapter parse (pi_order_id payment_data) w")
  with get_order_orders [of adapter parse "pi_order_id payment_data" w]
  have "orders w1 = orders w" by simp
  with Inr g show ?thesis
    by (simp add: create_payment_intent_def Let_def split: sum.splits option.splits exn.splits)
qed

lemma update_order_processing_status_paid:
  assumes "paid k w"
  shows "paid k (snd (update_order_processing_status parse now oid status_update w))"
proof (cases "get_database_adapter w")
  case (Inl e)
  with assms show ?thesis by (simp add: update_order_processing_status_def)
next
  case (Inr adapter)
  obtain r w1 where g: "get_order adapter parse oid w = (r, w1)"
    by (cases "get_order adapter parse oid w")
  with get_order_orders [of adapter parse oid w] have "orders w1 = orders w" by simp
  with assms have p1: "paid k w1" by (rule paid_orders)
  obtain r2 w2 where u: "update_order_status adapter parse now oid status_update w1 = (r2, w2)"
    by (cases "update_order_status adapter parse now oid status_update w1")
  with update_order_status_paid [OF p1, of adapter parse now oid status_update]
  have p2: "paid k w2" by simp
  have "snd (update_order_processing_status parse now oid status_update w) = w1 \<or>
        snd (update_order_processing_status parse now oid status_update w) = w2"
    by (simp add: update_order_processing_status_def Inr g u split: sum.split option.split)
  with p1 p2 show ?thesis by auto
qed

lemma mark_paid_paid:
  assumes "paid k w"
  shows "paid k (snd (mark_paid parse now s w))"
proof (cases "parse s")
  case None
  with assms show ?thesis by (simp add: mark_paid_def)
next
  case (Some oid)
  show ?thesis
  proof (cases "get_database_adapter w")
    case (Inl e)
    with Some assms show ?thesis by (simp add: mark_paid_def)
  next
    case (Inr adapter)
    obtain r w1 where
      u: "update_order_payment_status adapter parse now oid PaymentStatus_COMPLETED w = (r, w1)"
      by (cases "update_order_payment_status adapter parse now oid PaymentStatus_COMPLETED w")
    with update_order_payment_status_paid [OF assms, of adapter parse now oid]
    have "paid k w1" by simp
    with Some Inr u show ?thesis
      by (simp add: mark_paid_def split: sum.splits)
  qed
qed

lemma stripe_webhook_paid:
  assumes "paid k w"
  shows "paid k (snd (stripe_webhook settings construct_event parse now stripe_signature
                        payload w))"
proof (cases "construct_event payload (the stripe_signature) (stripe_webhook_secret settings)")
  case (Inl e)
  with assms show ?thesis by (simp add: stripe_webhook_def)
next
  case (Inr event)
  obtain r w1 where m: "mark_paid parse now (the (event_order_id event)) w = (r, w1)"
    by (cases "mark_paid parse now (the (event_order_id event)) w")
  with mark_paid_paid [OF assms, of parse now "the (event_order_id event)"]
  have "paid k w1" by simp
  with Inr m assms show ?thesis
    by (simp add: stripe_webhook_def split: sum.splits)
qed

lemma Depends_verify_admin_key_paid:
  assumes "paid k w" and "paid k (snd (handler w))"
  shows "paid k (snd (Depends_verify_admin_key settings x_api_key handler w))"
  using assms by (simp add: Depends_verify_admin_key_def split: sum.splits)

lemma handle_paid:
  assumes "paid k w"
  shows "paid k (handle settings create construct_event parse r w)"
proof (cases r)
  case (POST_orders f order_data)
  with assms show ?thesis by (simp add: submit_order_raises)
next
  case (GET_orders oid)
  with assms show ?thesis
    by (simp add: paid_orders [OF _ get_order_by_id_orders])
next
  case (GET_manage_orders x_api_key)
  with assms show ?thesis
    by (simp add: manage_list_all_orders_def Depends_verify_admin_key_paid
        paid_orders [OF _ list_all_orders_orders])
next
  case (PATCH_manage_orders_status x_api_key now oid status_update)
  with assms show ?thesis
    by (simp add: manage_update_order_processing_status_def Depends_verify_admin_key_paid
        update_order_processing_status_paid)
next
  case (GET_manage_orders_id x_api_key oid)
  with assms show ?thesis
    by (simp add: manage_get_order_details_def Depends_verify_admin_key_paid
        paid_orders [OF _ get_order_details_orders])
next
  case (POST_payments_create_payment_intent payment_data)
  with assms show ?thesis
    by (simp add: paid_orders [OF _ create_payment_intent_orders])
next
  case (POST_payments_webhook now stripe_signature payload)
  with assms show ?thesis by (simp add: stripe_webhook_paid)
qed

text \<open>
  Claim C10: once a stored order carries the payment status \<open>Completed\<close>, it still
  does after any sequence of requests to the API, whatever the payment processor
  answers and whatever the clock, the keys and the bodies are.
\<close>

theorem payment_status_monotone:
  "paid k w \<Longrightarrow> paid k (run settings create construct_event parse rs w)"
proof (induction rs arbitrary: w)
  case Nil
  then show ?case by simp
next
  case (Cons r rs)
  from Cons.prems have "paid k (handle settings create construct_event parse r w)"
    by (rule handle_paid)
  then show ?case by (simp add: Cons.IH)
qed

text \<open>
  Claim C10 at a concrete run against the stored, paid example order: a status update
  with the right key, a verified webhook for the same order, a submission and a read.
\<close>

theorem payment_status_monotone_witness:
  "paid (str_UUID example_id) stored_paid \<and>
   paid (str_UUID example_id)
     (run example_settings (\<lambda>a c m. Inl (StripeError ''card declined''))
        (succeeded_event (Some (str_UUID example_id))) canonical_UUID
        [PATCH_manage_orders_status (Some ''s3cret'') 3000 example_id OrderStatus_NOT_STARTED,
         POST_payments_webhook 4000 (Some ''t=1,v1=ab'') ''{}'',
         POST_orders example_factories example_request,
         GET_orders example_id]
        stored_paid)"
proof -
  have p: "paid (str_UUID example_id) stored_paid"
    by (simp add: paid_def stored_paid_orders) (simp add: order_to_dict_def)
  show ?thesis
    by (rule conjI [OF p payment_status_monotone [OF p]])
qed

end
